theory Spec2Isabelle
  imports Main "HOL-Library.Sublist"
begin

section \<open>Errors\<close>

text \<open>
  Go's \<open>error\<close> values. The two typed errors the workflows test for with
  \<open>errors.As\<close> are constructors of their own; \<open>errors_New\<close> stands for
  \<open>errors.New\<close> and for \<open>fmt.Errorf\<close> without \<open>%w\<close>; \<open>Errorf m e\<close> stands for
  \<open>fmt.Errorf("m: %w", e)\<close>, where \<open>m\<close> is the formatted text before the colon
  (every wrapping format of the source ends in \<open>": %w"\<close>).
  A nil error is \<open>None\<close>; a Go result pair \<open>(v, err)\<close> is a sum, \<open>Inl\<close> the error.
\<close>

datatype err =
    ErrStackAlreadyExists string
  | ErrNoSuchApplication string string
  | errors_New string
  | Errorf string err

type_synonym error = "err option"

text \<open>\<open>errors.As(err, &target)\<close> walks the chain of wrapped errors; on nil it is false.\<close>

fun unwraps_to_ErrStackAlreadyExists :: "err \<Rightarrow> bool" where
  "unwraps_to_ErrStackAlreadyExists (ErrStackAlreadyExists s) = True"
| "unwraps_to_ErrStackAlreadyExists (Errorf m e) = unwraps_to_ErrStackAlreadyExists e"
| "unwraps_to_ErrStackAlreadyExists e = False"

fun unwraps_to_ErrNoSuchApplication :: "err \<Rightarrow> bool" where
  "unwraps_to_ErrNoSuchApplication (ErrNoSuchApplication p a) = True"
| "unwraps_to_ErrNoSuchApplication (Errorf m e) = unwraps_to_ErrNoSuchApplication e"
| "unwraps_to_ErrNoSuchApplication e = False"

definition errors_As_ErrStackAlreadyExists :: "error \<Rightarrow> bool" where
  "errors_As_ErrStackAlreadyExists err =
     (case err of None \<Rightarrow> False | Some e \<Rightarrow> unwraps_to_ErrStackAlreadyExists e)"

definition errors_As_ErrNoSuchApplication :: "error \<Rightarrow> bool" where
  "errors_As_ErrNoSuchApplication err =
     (case err of None \<Rightarrow> False | Some e \<Rightarrow> unwraps_to_ErrNoSuchApplication e)"

section \<open>Data model\<close>

text \<open>
  The \<open>archer\<close> package is outside the sources at hand; the records carry the fields the
  workflows read. A pointer that the code dereferences without a nil check holds a value.
\<close>

text \<open>
  Modelled from the spec: \<open>archer.Project.RequiresDNSDelegation()\<close> is missing; the spec's
  data model lists it as a flag of the project, so it is a field here.
\<close>

record Project =
  proj_Name :: string
  proj_AccountID :: string
  proj_Domain :: string
  RequiresDNSDelegation :: bool

record Environment =
  env_Project :: string
  env_Name :: string
  env_AccountID :: string
  env_Region :: string
  env_Prod :: bool
  ManagerRoleARN :: string
  ExecutionRoleARN :: string

record Application =
  app_Project :: string
  app_Name :: string
  app_Type :: string

text \<open>
  \<open>GlobalOpts\<close> is embedded in every command's variables. Its declaration is outside the
  sources at hand: \<open>ProjectName()\<close> reads the project name, and \<open>prompt\<close> asks the user.
  A prompt's answer is a function of what is asked.
\<close>

record GlobalOpts =
  projectName :: string
  prompt_SelectOne :: "string \<Rightarrow> string \<Rightarrow> string list \<Rightarrow> err + string"
  prompt_Get :: "string \<Rightarrow> string \<Rightarrow> err + string"

definition ProjectName :: "'a GlobalOpts_scheme \<Rightarrow> string" where
  "ProjectName opts = projectName opts"

section \<open>Application init (app_init.go)\<close>

definition fmtAddAppToProjectStart :: string where
  "fmtAddAppToProjectStart = ''Creating ECR repositories for application %s.''"

definition fmtAddAppToProjectFailed :: string where
  "fmtAddAppToProjectFailed = ''Failed to create ECR repositories for application %s.''"

definition fmtAddAppToProjectComplete :: string where
  "fmtAddAppToProjectComplete = ''Created ECR repositories for application %s.''"

record AppManifestProps =
  mf_AppName :: string
  mf_Dockerfile :: string

record LBFargateManifestProps = AppManifestProps +
  mf_Path :: string

text \<open>The manifest constructor is opaque: a manifest is the properties it was built from.\<close>

datatype Manifest = NewLoadBalancedFargateManifest LBFargateManifestProps

record initAppVars = GlobalOpts +
  AppType :: string
  initApp_AppName :: string
  DockerfilePath :: string

text \<open>
  The interface fields of \<open>initAppOpts\<close> are the answers of the collaborators, one function
  per method called. \<open>os.Getwd\<close> and \<open>filepath.Rel\<close> depend on the process and are taken
  the same way.
\<close>

record initAppOpts = initAppVars +
  ws_WriteAppManifest :: "Manifest \<Rightarrow> string \<Rightarrow> err + string"
  appStore_GetApplication :: "string \<Rightarrow> string \<Rightarrow> err + Application"
  appStore_CreateApplication :: "Application \<Rightarrow> error"
  projGetter_GetProject :: "string \<Rightarrow> err + Project"
  projDeployer_AddAppToProject :: "Project \<Rightarrow> string \<Rightarrow> error"
  os_Getwd :: "err + string"
  filepath_Rel :: "string \<Rightarrow> string \<Rightarrow> err + string"
  proj :: "Project option"
  manifestPath :: string

text \<open>
  What a run of application init does to its collaborators, in order. The spinner's
  messages are recorded by their format constant; lines printed with \<open>log\<close> are not
  recorded.
\<close>

datatype init_call =
    Call_GetApplication string string
  | Call_initApp_GetProject string
  | Call_WriteAppManifest Manifest string
  | Call_Getwd
  | Call_Rel string string
  | Call_initApp_progStart string
  | Call_initApp_progStop string
  | Call_AddAppToProject Project string
  | Call_CreateApplication Application

definition ensureNoExistingApp :: "initAppOpts \<Rightarrow> string \<Rightarrow> string \<Rightarrow> error \<times> init_call list" where
  "ensureNoExistingApp opts projectName' appName =
     (let r = appStore_GetApplication opts projectName' (initApp_AppName opts);
          err = (case r of Inl e \<Rightarrow> Some e | Inr a \<Rightarrow> None);
          tr = [Call_GetApplication projectName' (initApp_AppName opts)]
      in if errors_As_ErrNoSuchApplication err then (None, tr)
         else (case err of
           None \<Rightarrow>
             (Some (errors_New (''application '' @ appName @ '' already exists under project '' @ projectName')), tr)
         | Some e \<Rightarrow>
             (Some (Errorf (''couldn't check if application '' @ appName @ '' exists in project '' @ projectName') e), tr)))"

definition createManifest :: "initAppOpts \<Rightarrow> (err + string) \<times> init_call list" where
  "createManifest opts =
     (let props = \<lparr> mf_AppName = initApp_AppName opts, mf_Dockerfile = DockerfilePath opts,
                    mf_Path = initApp_AppName opts \<rparr>;
          manifest = NewLoadBalancedFargateManifest props;
          tr1 = [Call_WriteAppManifest manifest (initApp_AppName opts)]
      in case ws_WriteAppManifest opts manifest (initApp_AppName opts) of
           Inl e \<Rightarrow> (Inl e, tr1)
         | Inr manifestPath' \<Rightarrow>
            (case os_Getwd opts of
               Inl e \<Rightarrow> (Inl (Errorf ''get working directory'' e), tr1 @ [Call_Getwd])
             | Inr wkdir \<Rightarrow>
                (case filepath_Rel opts wkdir manifestPath' of
                   Inl e \<Rightarrow> (Inl (Errorf ''relative path of manifest file'' e),
                             tr1 @ [Call_Getwd, Call_Rel wkdir manifestPath'])
                 | Inr relPath \<Rightarrow> (Inr relPath, tr1 @ [Call_Getwd, Call_Rel wkdir manifestPath']))))"

definition createAppInProject :: "initAppOpts \<Rightarrow> string \<Rightarrow> error \<times> init_call list" where
  "createAppInProject opts projectName' =
     (let app = \<lparr> app_Project = projectName', app_Name = initApp_AppName opts, app_Type = AppType opts \<rparr>
      in case appStore_CreateApplication opts app of
           Some e \<Rightarrow> (Some (Errorf (''saving application '' @ initApp_AppName opts) e), [Call_CreateApplication app])
         | None \<Rightarrow> (None, [Call_CreateApplication app]))"

text \<open>
  \<open>initAppOpts.Execute\<close>: the error returned, the options as the run leaves them (\<open>proj\<close>
  and \<open>manifestPath\<close> are cached on the way) and the calls made.
\<close>

definition initApp_Execute :: "initAppOpts \<Rightarrow> error \<times> initAppOpts \<times> init_call list" where
  "initApp_Execute opts =
     (case ensureNoExistingApp opts (ProjectName opts) (initApp_AppName opts) of
        (Some e, tr0) \<Rightarrow> (Some e, opts, tr0)
      | (None, tr0) \<Rightarrow>
         (case projGetter_GetProject opts (ProjectName opts) of
            Inl e \<Rightarrow> (Some (Errorf (''get project '' @ ProjectName opts) e), opts,
                      tr0 @ [Call_initApp_GetProject (ProjectName opts)])
          | Inr p \<Rightarrow>
             (let o1 = opts\<lparr>proj := Some p\<rparr>;
                  tr1 = tr0 @ [Call_initApp_GetProject (ProjectName opts)]
              in case createManifest o1 of
                   (Inl e, trm) \<Rightarrow> (Some e, o1, tr1 @ trm)
                 | (Inr manifestPath', trm) \<Rightarrow>
                    (let o2 = o1\<lparr>manifestPath := manifestPath'\<rparr>;
                         tr2 = tr1 @ trm @ [Call_initApp_progStart fmtAddAppToProjectStart,
                                           Call_AddAppToProject p (initApp_AppName o2)]
                     in case projDeployer_AddAppToProject o2 p (initApp_AppName o2) of
                          Some e \<Rightarrow>
                            (Some (Errorf (''add app '' @ initApp_AppName o2 @ '' to project '' @ ProjectName o2) e),
                             o2, tr2 @ [Call_initApp_progStop fmtAddAppToProjectFailed])
                        | None \<Rightarrow>
                            (case createAppInProject o2 (ProjectName o2) of
                               (r, trc) \<Rightarrow>
                                 (r, o2, tr2 @ [Call_initApp_progStop fmtAddAppToProjectComplete] @ trc))))))"

section \<open>Application deploy (app_deploy.go)\<close>


text \<open>\<open>strings.TrimSuffix\<close>, \<open>strings.HasPrefix\<close> and \<open>strings.Contains\<close> of Go's library.\<close>

definition strings_TrimSuffix :: "string \<Rightarrow> string \<Rightarrow> string" where
  "strings_TrimSuffix s suf = (if suffix suf s then take (length s - length suf) s else s)"

definition strings_HasPrefix :: "string \<Rightarrow> string \<Rightarrow> bool" where
  "strings_HasPrefix s pre = prefix pre s"

definition strings_Contains :: "string \<Rightarrow> string \<Rightarrow> bool" where
  "strings_Contains s substr = sublist substr s"

text \<open>
  A credential session is known by a label. A backend client (\<open>ecr.New\<close>,
  \<open>cloudformation.New\<close>) is the session it is built from, and what it answers may depend
  on that session.
\<close>

datatype Session = Session string

record Auth =
  Username :: string
  Password :: string

datatype Describer = WebAppDescriber string string

record appDeployVars = GlobalOpts +
  AppName :: string
  EnvName :: string
  ImageTag :: string

text \<open>
  The collaborators of \<open>appDeployOpts\<close>, one function per method called, then the fields
  the run fills in: the three clients and the target environment. \<open>Execute\<close> assigns each
  of them before it reads it, so a field holds a value and what it held before the
  assignment is never looked at.
  Packages called directly (\<open>manifest\<close>, \<open>uuid\<close>, \<open>stack\<close>, \<open>describe\<close>, the
  in-process \<open>packageAppOpts.Execute\<close> and \<open>getVersionTag\<close>) are outside the sources at
  hand and are taken the same way. \<open>manifest_UnmarshalApp\<close> answers the manifest's
  \<open>DockerfilePath()\<close>; \<open>uuid_NewRandom\<close> answers the identifier as \<open>%s\<close> prints it;
  \<open>packageAppOpts_Execute\<close> answers what it wrote to the stack writer.
\<close>

record appDeployOpts = appDeployVars +
  projectService_GetEnvironment :: "string \<Rightarrow> string \<Rightarrow> err + Environment"
  projectService_ListEnvironments :: "string \<Rightarrow> err + Environment list"
  workspaceService_AppNames :: "err + string list"
  workspaceService_ReadAppManifest :: "string \<Rightarrow> err + string"
  manifest_UnmarshalApp :: "string \<Rightarrow> err + string"
  sessProvider_DefaultWithRegion :: "string \<Rightarrow> err + Session"
  sessProvider_FromRole :: "string \<Rightarrow> string \<Rightarrow> err + Session"
  sessProvider_Default :: "err + Session"
  ecr_GetRepository :: "Session \<Rightarrow> string \<Rightarrow> err + string"
  ecr_GetECRAuth :: "Session \<Rightarrow> err + Auth"
  dockerService_Build :: "string \<Rightarrow> string \<Rightarrow> string \<Rightarrow> error"
  dockerService_Push :: "string \<Rightarrow> string \<Rightarrow> error"
  packageAppOpts_Execute :: "string \<Rightarrow> string \<Rightarrow> string \<Rightarrow> Session \<Rightarrow> err + string"
  uuid_NewRandom :: "err + string"
  stack_NameForApp :: "string \<Rightarrow> string \<Rightarrow> string \<Rightarrow> string"
  stack_ProjectTagKey :: string
  stack_EnvTagKey :: string
  stack_AppTagKey :: string
  cf_DeployApp :: "Session \<Rightarrow> string \<Rightarrow> string \<Rightarrow> string \<Rightarrow> string \<Rightarrow> (string \<rightharpoonup> string) \<Rightarrow> error"
  describe_NewWebAppDescriber :: "string \<Rightarrow> string \<Rightarrow> err + Describer"
  identifier_URI :: "Describer \<Rightarrow> string \<Rightarrow> err + string"
  getVersionTag :: "err + string"
  ecrService :: Session
  appDeployCfClient :: Session
  appPackageCfClient :: Session
  targetEnvironment :: Environment

text \<open>The calls of a run of application deploy, in order, with their arguments.\<close>

datatype deploy_call =
    Call_AppNames
  | Call_ListEnvironments string
  | Call_SelectOne string string "string list"
  | Call_Get string string
  | Call_getVersionTag
  | Call_GetEnvironment string string
  | Call_DefaultWithRegion string
  | Call_FromRole string string
  | Call_Default
  | Call_GetRepository Session string
  | Call_ReadAppManifest string
  | Call_UnmarshalApp string
  | Call_Build string string string
  | Call_GetECRAuth Session
  | Call_Login string string string
  | Call_Push string string
  | Call_packageAppOpts_Execute string string string Session
  | Call_uuid_NewRandom
  | Call_spinner_Start string
  | Call_spinner_Stop string
  | Call_DeployApp Session string string string string "string \<rightharpoonup> string"
  | Call_NewWebAppDescriber string string
  | Call_URI Describer string

subsection \<open>Ask\<close>





subsection \<open>Execute\<close>

definition targetEnv :: "appDeployOpts \<Rightarrow> (err + Environment) \<times> deploy_call list" where
  "targetEnv opts =
     (case projectService_GetEnvironment opts (ProjectName opts) (EnvName opts) of
        Inl e \<Rightarrow> (Inl (Errorf (''get environment '' @ EnvName opts @ '' from metadata store'') e),
                  [Call_GetEnvironment (ProjectName opts) (EnvName opts)])
      | Inr env \<Rightarrow> (Inr env, [Call_GetEnvironment (ProjectName opts) (EnvName opts)]))"

definition configureClients :: "appDeployOpts \<Rightarrow> error \<times> appDeployOpts \<times> deploy_call list" where
  "configureClients opts =
     (let region = env_Region (targetEnvironment opts);
          role = ManagerRoleARN (targetEnvironment opts)
      in case sessProvider_DefaultWithRegion opts region of
           Inl e \<Rightarrow> (Some (Errorf (''create ECR session with region '' @ region) e), opts,
                     [Call_DefaultWithRegion region])
         | Inr defaultSessEnvRegion \<Rightarrow>
            (case sessProvider_FromRole opts role region of
               Inl e \<Rightarrow> (Some (Errorf ''assuming environment manager role'' e), opts,
                         [Call_DefaultWithRegion region, Call_FromRole role region])
             | Inr envSession \<Rightarrow>
                (let opts1 = opts\<lparr>ecrService := defaultSessEnvRegion, appDeployCfClient := envSession\<rparr>;
                     tr = [Call_DefaultWithRegion region, Call_FromRole role region, Call_Default]
                 in (case sessProvider_Default opts1 of
                       Inl e \<Rightarrow> (Some (Errorf ''create app package CF session'' e), opts1, tr)
                     | Inr appPackageCfSess \<Rightarrow>
                         (None, opts1\<lparr>appPackageCfClient := appPackageCfSess\<rparr>, tr)))))"

definition getAppDeployTemplate :: "appDeployOpts \<Rightarrow> (err + string) \<times> deploy_call list" where
  "getAppDeployTemplate opts =
     (let tr = [Call_packageAppOpts_Execute (AppName opts) (env_Name (targetEnvironment opts))
                  (ImageTag opts) (appPackageCfClient opts)]
      in case packageAppOpts_Execute opts (AppName opts) (env_Name (targetEnvironment opts))
                (ImageTag opts) (appPackageCfClient opts) of
           Inl e \<Rightarrow> (Inl (Errorf ''package application'' e), tr)
         | Inr buffer \<Rightarrow> (Inr buffer, tr))"

definition applyAppDeployTemplate ::
  "appDeployOpts \<Rightarrow> string \<Rightarrow> string \<Rightarrow> string \<Rightarrow> string \<Rightarrow> (string \<rightharpoonup> string) \<Rightarrow> error \<times> deploy_call list" where
  "applyAppDeployTemplate opts template stackName changeSetName cfExecutionRole tags =
     (let tr = [Call_DeployApp (appDeployCfClient opts) template stackName changeSetName cfExecutionRole tags]
      in case cf_DeployApp opts (appDeployCfClient opts) template stackName changeSetName cfExecutionRole tags of
           Some e \<Rightarrow> (Some (Errorf ''deploy application'' e), tr)
         | None \<Rightarrow> (None, tr))"

definition getAppDockerfilePath :: "appDeployOpts \<Rightarrow> (err + string) \<times> deploy_call list" where
  "getAppDockerfilePath opts =
     (case workspaceService_ReadAppManifest opts (AppName opts) of
        Inl e \<Rightarrow> (Inl (Errorf (''read manifest file '' @ AppName opts) e), [Call_ReadAppManifest (AppName opts)])
      | Inr manifestBytes \<Rightarrow>
         (case manifest_UnmarshalApp opts manifestBytes of
            Inl e \<Rightarrow> (Inl (Errorf ''unmarshal app manifest'' e),
                      [Call_ReadAppManifest (AppName opts), Call_UnmarshalApp manifestBytes])
          | Inr dockerfilePath \<Rightarrow>
              (Inr (strings_TrimSuffix dockerfilePath ''/Dockerfile''),
               [Call_ReadAppManifest (AppName opts), Call_UnmarshalApp manifestBytes])))"

text \<open>
  The second half of \<open>appDeployOpts.Execute\<close>, from the line that renders the template
  to the end. It is a definition of its own only to keep \<open>Execute\<close> readable; the
  source has one function. The error of \<open>getAppDeployTemplate\<close> is assigned and then
  overwritten by the one of \<open>uuid.NewRandom\<close> without being looked at, so the run goes on
  with the template the failed rendering returned, the empty string.
\<close>

definition appDeploy_Execute_from_template :: "appDeployOpts \<Rightarrow> error \<times> deploy_call list" where
  "appDeploy_Execute_from_template opts =
     (case getAppDeployTemplate opts of
        (r, tr1) \<Rightarrow>
         (let template = (case r of Inl _ \<Rightarrow> '''' | Inr t \<Rightarrow> t);
              tr2 = tr1 @ [Call_uuid_NewRandom]
          in case uuid_NewRandom opts of
               Inl e \<Rightarrow> (Some (Errorf ''failed to generate random id for changeSet'' e), tr2)
             | Inr id' \<Rightarrow>
                (let stackName = stack_NameForApp opts (ProjectName opts)
                                   (env_Name (targetEnvironment opts)) (AppName opts);
                     changeSetName = stackName @ ''-'' @ id';
                     tags = [stack_ProjectTagKey opts \<mapsto> ProjectName opts,
                             stack_EnvTagKey opts \<mapsto> env_Name (targetEnvironment opts),
                             stack_AppTagKey opts \<mapsto> AppName opts];
                     tr3 = tr2 @ [Call_spinner_Start ''Deploying %s to %s.'']
                 in case applyAppDeployTemplate opts template stackName changeSetName
                           (ExecutionRoleARN (targetEnvironment opts)) tags of
                      (Some e, tr4) \<Rightarrow> (Some e, tr3 @ tr4 @ [Call_spinner_Stop ''Error!''])
                    | (None, tr4) \<Rightarrow>
                       (let tr5 = tr3 @ tr4 @ [Call_spinner_Stop '''',
                                              Call_NewWebAppDescriber (ProjectName opts) (AppName opts)]
                        in case describe_NewWebAppDescriber opts (ProjectName opts) (AppName opts) of
                             Inl e \<Rightarrow>
                               (Some (Errorf (''create identifier for application '' @ AppName opts
                                               @ '' in project '' @ ProjectName opts) e), tr5)
                           | Inr identifier \<Rightarrow>
                              (let tr6 = tr5 @ [Call_URI identifier (env_Name (targetEnvironment opts))]
                               in case identifier_URI opts identifier (env_Name (targetEnvironment opts)) of
                                    Inl e \<Rightarrow>
                                      (Some (Errorf (''cannot retrieve the URI from environment ''
                                                      @ EnvName opts) e), tr6)
                                  | Inr loadBalancerURI \<Rightarrow> (None, tr6))))))"

text \<open>
  \<open>appDeployOpts.Execute\<close>: the error returned, the options as the run leaves them and
  the calls made. What \<open>Login\<close> returns is dropped by the source, so it has no answer
  here, only a call.
\<close>

definition appDeploy_Execute :: "appDeployOpts \<Rightarrow> error \<times> appDeployOpts \<times> deploy_call list" where
  "appDeploy_Execute opts =
     (case targetEnv opts of
        (Inl e, tr0) \<Rightarrow> (Some e, opts, tr0)
      | (Inr env, tr0) \<Rightarrow>
         (case configureClients (opts\<lparr>targetEnvironment := env\<rparr>) of
            (Some e, o2, tr1) \<Rightarrow> (Some e, o2, tr0 @ tr1)
          | (None, o2, tr1) \<Rightarrow>
             (let repoName = projectName o2 @ ''/'' @ AppName o2;
                  tr2 = tr0 @ tr1 @ [Call_GetRepository (ecrService o2) repoName]
              in case ecr_GetRepository o2 (ecrService o2) repoName of
                   Inl e \<Rightarrow> (Some (Errorf ''get ECR repository URI'' e), o2, tr2)
                 | Inr uri \<Rightarrow>
                    (case getAppDockerfilePath o2 of
                       (Inl e, tr3) \<Rightarrow> (Some e, o2, tr2 @ tr3)
                     | (Inr appDockerfilePath, tr3) \<Rightarrow>
                        (let tr4 = tr2 @ tr3 @ [Call_Build uri (ImageTag o2) appDockerfilePath]
                         in case dockerService_Build o2 uri (ImageTag o2) appDockerfilePath of
                              Some e \<Rightarrow>
                                (Some (Errorf (''build Dockerfile at '' @ appDockerfilePath
                                                @ '' with tag '' @ ImageTag o2) e), o2, tr4)
                            | None \<Rightarrow>
                               (let tr5 = tr4 @ [Call_GetECRAuth (ecrService o2)]
                                in case ecr_GetECRAuth o2 (ecrService o2) of
                                     Inl e \<Rightarrow> (Some (Errorf ''get ECR auth data'' e), o2, tr5)
                                   | Inr auth \<Rightarrow>
                                      (let tr6 = tr5 @ [Call_Login uri (Username auth) (Password auth),
                                                        Call_Push uri (ImageTag o2)]
                                       in case dockerService_Push o2 uri (ImageTag o2) of
                                            Some e \<Rightarrow> (Some e, o2, tr6)
                                          | None \<Rightarrow>
                                             (case appDeploy_Execute_from_template o2 of
                                                (r, tr7) \<Rightarrow> (r, o2, tr6 @ tr7)))))))))"

subsection \<open>Validate\<close>




section \<open>Environment init (env_init.go)\<close>

definition fmtDeployEnvStart :: string where
  "fmtDeployEnvStart = ''Proposing infrastructure changes for the %s environment.''"

definition fmtDeployEnvFailed :: string where
  "fmtDeployEnvFailed = ''Failed to accept changes for the %s environment.''"

definition fmtDNSDelegationStart :: string where
  "fmtDNSDelegationStart = ''Sharing DNS permissions for this project to account %s.''"

definition fmtDNSDelegationFailed :: string where
  "fmtDNSDelegationFailed = ''Failed to grant DNS permissions to account %s.''"

definition fmtStreamEnvStart :: string where
  "fmtStreamEnvStart = ''Creating the infrastructure for the %s environment.''"

definition fmtStreamEnvFailed :: string where
  "fmtStreamEnvFailed = ''Failed to create the infrastructure for the %s environment.''"

definition fmtStreamEnvComplete :: string where
  "fmtStreamEnvComplete = ''Created the infrastructure for the %s environment.''"

definition fmtAddEnvToProjectStart :: string where
  "fmtAddEnvToProjectStart = ''Linking account %s and region %s to project %s.''"

definition fmtAddEnvToProjectFailed :: string where
  "fmtAddEnvToProjectFailed = ''Failed to link account %s and region %s to project %s.''"

definition fmtAddEnvToProjectComplete :: string where
  "fmtAddEnvToProjectComplete = ''Linked account %s and region %s project %s.''"

subsection \<open>Progress rows\<close>

text \<open>
  \<open>deploy.Resource\<close> and \<open>deploy.ResourceEvent\<close>: the matchers read the type and the
  logical name of the resource; an event is a resource with a status.
\<close>

record Resource =
  LogicalName :: string
  Type :: string

record ResourceEvent = Resource +
  Status :: string

text \<open>The texts of the progress rows; their declarations are outside the sources at hand.\<close>

datatype Text = textVPC | textInternetGateway | textPublicSubnets | textPrivateSubnets
  | textRouteTables | textECSCluster | textALB

text \<open>The table \<open>matcher\<close> of \<open>humanizeEnvironmentEvents\<close>.\<close>

fun matcher :: "Text \<Rightarrow> 'a Resource_scheme \<Rightarrow> bool" where
  "matcher textVPC event = (Type event = ''AWS::EC2::VPC'')"
| "matcher textInternetGateway event =
     (Type event = ''AWS::EC2::InternetGateway'' \<or> Type event = ''AWS::EC2::VPCGatewayAttachment'')"
| "matcher textPublicSubnets event =
     (Type event = ''AWS::EC2::Subnet'' \<and> strings_HasPrefix (LogicalName event) ''Public'')"
| "matcher textPrivateSubnets event =
     (Type event = ''AWS::EC2::Subnet'' \<and> strings_HasPrefix (LogicalName event) ''Private'')"
| "matcher textRouteTables event = strings_Contains (LogicalName event) ''Route''"
| "matcher textECSCluster event = (Type event = ''AWS::ECS::Cluster'')"
| "matcher textALB event =
     (strings_Contains (LogicalName event) ''LoadBalancer''
      \<or> strings_Contains (Type event) ''ElasticLoadBalancingV2'')"

text \<open>The table \<open>resourceCounts\<close> of \<open>humanizeEnvironmentEvents\<close>.\<close>

fun resourceCounts :: "Text \<Rightarrow> int" where
  "resourceCounts textVPC = 1"
| "resourceCounts textInternetGateway = 2"
| "resourceCounts textPublicSubnets = 2"
| "resourceCounts textPrivateSubnets = 2"
| "resourceCounts textRouteTables = 4"
| "resourceCounts textECSCluster = 1"
| "resourceCounts textALB = 4"

text \<open>
  Modelled from the spec: the declaration of \<open>envProgressOrder\<close> is missing. The spec
  gives the environment bring-up a fixed list of phases in a declared order; the phases
  are the keys of the two tables above, listed here as the source writes them.
\<close>

definition envProgressOrder :: "Text list" where
  "envProgressOrder = [textVPC, textInternetGateway, textPublicSubnets, textPrivateSubnets,
                       textRouteTables, textECSCluster, textALB]"

text \<open>
  Modelled from the spec: the row type \<open>termprogress.TabRow\<close> is missing. The spec's
  event correlator puts out one phase-status row per declared phase; a row shows the
  phase, its counter and whether it is complete.
\<close>

record TabRow =
  row_Text :: Text
  row_Count :: int
  row_Complete :: bool

text \<open>
  Modelled from the spec: the counting of \<open>termprogress.HumanizeResourceEvents\<close>, which
  is missing. The spec's event correlator keeps for a phase a counter of the events its
  predicate matches; the counter is capped at the expected count and the excess is
  ignored; an event the predicate does not match changes nothing.
\<close>

fun countMatched :: "(ResourceEvent \<Rightarrow> bool) \<Rightarrow> int \<Rightarrow> int \<Rightarrow> ResourceEvent list \<Rightarrow> int" where
  "countMatched matches wanted count [] = count"
| "countMatched matches wanted count (resourceEvent # resourceEvents) =
     countMatched matches wanted
       (if matches resourceEvent \<and> count < wanted then count + 1 else count) resourceEvents"

text \<open>
  Modelled from the spec: \<open>termprogress.HumanizeResourceEvents\<close> is missing. The spec's
  event correlator reports the phases in their declared order, whatever the order of the
  events, each with its counter; a phase is complete when the counter reaches the
  expected count.
\<close>

definition HumanizeResourceEvents ::
  "Text list \<Rightarrow> ResourceEvent list \<Rightarrow> (Text \<Rightarrow> ResourceEvent \<Rightarrow> bool) \<Rightarrow> (Text \<Rightarrow> int) \<Rightarrow> TabRow list" where
  "HumanizeResourceEvents orderedTexts resourceEvents matcher' wantedCount =
     map (\<lambda>text.
            let count = countMatched (matcher' text) (wantedCount text) 0 resourceEvents
            in \<lparr> row_Text = text, row_Count = count, row_Complete = (wantedCount text \<le> count) \<rparr>)
         orderedTexts"

definition humanizeEnvironmentEvents :: "ResourceEvent list \<Rightarrow> TabRow list" where
  "humanizeEnvironmentEvents resourceEvents =
     HumanizeResourceEvents envProgressOrder resourceEvents matcher resourceCounts"

subsection \<open>Execute\<close>

record Caller =
  Account :: string
  RootUserARN :: string

record CreateEnvironmentInput =
  in_Name :: string
  in_Project :: string
  in_Prod :: bool
  in_PublicLoadBalancer :: bool
  in_ToolsAccountPrincipalARN :: string
  in_ProjectDNSName :: string

text \<open>
  \<open>deploy.CreateEnvironmentResponse\<close>, the one value of the responses channel. When
  \<open>resp_Err\<close> is nil the code reads \<open>resp_Env\<close> without a nil check, so it holds a value.
\<close>

record CreateEnvironmentResponse =
  resp_Env :: Environment
  resp_Err :: error

text \<open>
  What \<open>StreamEnvironmentCreation\<close> delivers on its two channels: the batches of
  events received until the events channel is closed, then the response; or some
  batches, after which the loop over the events or the receive of the response waits
  forever.
\<close>

datatype stream =
    Closed "ResourceEvent list list" CreateEnvironmentResponse
  | Waits "ResourceEvent list list"

text \<open>A run returns an error value (nil on success) or never returns.\<close>

datatype outcome = Returns error | Blocks

record initEnvVars = GlobalOpts +
  initEnv_EnvName :: string
  EnvProfile :: string
  IsProduction :: bool

record initEnvOpts = initEnvVars +
  projectGetter_GetProject :: "string \<Rightarrow> err + Project"
  envCreator_CreateEnvironment :: "Environment \<Rightarrow> error"
  envDeployer_DeployEnvironment :: "CreateEnvironmentInput \<Rightarrow> error"
  envDeployer_StreamEnvironmentCreation :: "CreateEnvironmentInput \<Rightarrow> stream"
  projDeployer_DelegateDNSPermissions :: "Project \<Rightarrow> string \<Rightarrow> error"
  projDeployer_AddEnvToProject :: "Project \<Rightarrow> Environment \<Rightarrow> error"
  identity_Get :: "err + Caller"
  envIdentity_Get :: "err + Caller"

datatype env_call =
    Call_GetProject string
  | Call_identity_Get
  | Call_envIdentity_Get
  | Call_DelegateDNSPermissions Project string
  | Call_prog_Start string
  | Call_prog_Stop string
  | Call_prog_Events "TabRow list"
  | Call_DeployEnvironment CreateEnvironmentInput
  | Call_StreamEnvironmentCreation CreateEnvironmentInput
  | Call_AddEnvToProject Project Environment
  | Call_CreateEnvironment Environment

definition delegateDNSFromProject :: "initEnvOpts \<Rightarrow> Project \<Rightarrow> error \<times> env_call list" where
  "delegateDNSFromProject opts project =
     (case envIdentity_Get opts of
        Inl e \<Rightarrow> (Some (Errorf ''getting environment account ID for DNS Delegation'' e),
                  [Call_envIdentity_Get])
      | Inr envAccount \<Rightarrow>
         (if Account envAccount = proj_AccountID project then (None, [Call_envIdentity_Get])
          else
            (let tr = [Call_envIdentity_Get, Call_prog_Start fmtDNSDelegationStart,
                       Call_DelegateDNSPermissions project (Account envAccount)]
             in (case projDeployer_DelegateDNSPermissions opts project (Account envAccount) of
                   Some e \<Rightarrow> (Some e, tr @ [Call_prog_Stop fmtDNSDelegationFailed])
                 | None \<Rightarrow> (None, tr)))))"

text \<open>
  \<open>initEnvOpts.Execute\<close>: whether the run returns and with which error, and the calls
  made. The loop over the events channel hands each batch received to the spinner as
  rows.
\<close>

definition initEnv_Execute :: "initEnvOpts \<Rightarrow> outcome \<times> env_call list" where
  "initEnv_Execute opts =
     (case projectGetter_GetProject opts (ProjectName opts) of
        Inl e \<Rightarrow> (Returns (Some e), [Call_GetProject (ProjectName opts)])
      | Inr project \<Rightarrow>
         (case identity_Get opts of
            Inl e \<Rightarrow> (Returns (Some (Errorf ''get identity'' e)),
                      [Call_GetProject (ProjectName opts), Call_identity_Get])
          | Inr caller \<Rightarrow>
             (let deployEnvInput =
                    \<lparr> in_Name = initEnv_EnvName opts, in_Project = ProjectName opts,
                      in_Prod = IsProduction opts, in_PublicLoadBalancer = True,
                      in_ToolsAccountPrincipalARN = RootUserARN caller,
                      in_ProjectDNSName = proj_Domain project \<rparr>;
                  tr1 = [Call_GetProject (ProjectName opts), Call_identity_Get]
              in case (if RequiresDNSDelegation project then delegateDNSFromProject opts project
                       else (None, [])) of
                   (Some e, trd) \<Rightarrow> (Returns (Some (Errorf ''granting DNS permissions'' e)), tr1 @ trd)
                 | (None, trd) \<Rightarrow>
                    (let tr2 = tr1 @ trd @ [Call_prog_Start fmtDeployEnvStart,
                                            Call_DeployEnvironment deployEnvInput]
                     in case envDeployer_DeployEnvironment opts deployEnvInput of
                          Some e \<Rightarrow>
                            (if errors_As_ErrStackAlreadyExists (Some e)
                             then (Returns None, tr2 @ [Call_prog_Stop ''''])
                             else (Returns (Some e), tr2 @ [Call_prog_Stop fmtDeployEnvFailed]))
                        | None \<Rightarrow>
                           (let tr3 = tr2 @ [Call_prog_Start fmtStreamEnvStart,
                                             Call_StreamEnvironmentCreation deployEnvInput]
                            in case envDeployer_StreamEnvironmentCreation opts deployEnvInput of
                                 Waits stackEvents \<Rightarrow>
                                   (Blocks,
                                    tr3 @ map (\<lambda>stackEvent. Call_prog_Events (humanizeEnvironmentEvents stackEvent))
                                            stackEvents)
                               | Closed stackEvents resp \<Rightarrow>
                                  (let tr4 = tr3 @ map (\<lambda>stackEvent. Call_prog_Events (humanizeEnvironmentEvents stackEvent))
                                                     stackEvents
                                   in case resp_Err resp of
                                        Some e \<Rightarrow> (Returns (Some e), tr4 @ [Call_prog_Stop fmtStreamEnvFailed])
                                      | None \<Rightarrow>
                                         (let tr5 = tr4 @ [Call_prog_Stop fmtStreamEnvComplete,
                                                           Call_prog_Start fmtAddEnvToProjectStart,
                                                           Call_AddEnvToProject project (resp_Env resp)]
                                          in case projDeployer_AddEnvToProject opts project (resp_Env resp) of
                                               Some e \<Rightarrow>
                                                 (Returns (Some (Errorf (''deploy env '' @ env_Name (resp_Env resp)
                                                                          @ '' to project '' @ proj_Name project) e)),
                                                  tr5 @ [Call_prog_Stop fmtAddEnvToProjectFailed])
                                             | None \<Rightarrow>
                                                (let tr6 = tr5 @ [Call_prog_Stop fmtAddEnvToProjectComplete,
                                                                  Call_CreateEnvironment (resp_Env resp)]
                                                 in case envCreator_CreateEnvironment opts (resp_Env resp) of
                                                      Some e \<Rightarrow> (Returns (Some (Errorf ''store environment'' e)), tr6)
                                                    | None \<Rightarrow> (Returns None, tr6)))))))))"

section \<open>Sample runs\<close>

text \<open>
  Concrete collaborators, used to run the workflows on explicit inputs: a project
  \<open>demo\<close> in account \<open>111111111111\<close>, an application \<open>api\<close> and an environment \<open>test\<close>.
\<close>

definition demo_project :: Project where
  "demo_project = \<lparr> proj_Name = ''demo'', proj_AccountID = ''111111111111'',
                     proj_Domain = ''example.com'', RequiresDNSDelegation = True \<rparr>"

definition test_env :: Environment where
  "test_env = \<lparr> env_Project = ''demo'', env_Name = ''test'', env_AccountID = ''222222222222'',
                 env_Region = ''us-west-2'', env_Prod = False,
                 ManagerRoleARN = ''arn:aws:iam::222222222222:role/demo-test-EnvManagerRole'',
                 ExecutionRoleARN = ''arn:aws:iam::222222222222:role/demo-test-CFNExecutionRole'' \<rparr>"

definition api_app :: Application where
  "api_app = \<lparr> app_Project = ''demo'', app_Name = ''api'', app_Type = ''Load Balanced Web App'' \<rparr>"

text \<open>Application init where the store knows no application \<open>api\<close> and every call succeeds.\<close>

definition initApp_fresh :: initAppOpts where
  "initApp_fresh =
     \<lparr> projectName = ''demo'',
       prompt_SelectOne = (\<lambda>message help options. Inl (errors_New ''no terminal'')),
       prompt_Get = (\<lambda>message help. Inl (errors_New ''no terminal'')),
       AppType = ''Load Balanced Web App'',
       initApp_AppName = ''api'',
       DockerfilePath = ''api/Dockerfile'',
       ws_WriteAppManifest = (\<lambda>manifest name. Inr ''/code/ecs-project/api-app.yml''),
       appStore_GetApplication = (\<lambda>project name. Inl (ErrNoSuchApplication project name)),
       appStore_CreateApplication = (\<lambda>app. None),
       projGetter_GetProject = (\<lambda>name. Inr demo_project),
       projDeployer_AddAppToProject = (\<lambda>project name. None),
       os_Getwd = Inr ''/code'',
       filepath_Rel = (\<lambda>base target. Inr (drop (length base + 1) target)),
       proj = None,
       manifestPath = '''' \<rparr>"

text \<open>The same, with the application already in the store.\<close>

definition initApp_existing :: initAppOpts where
  "initApp_existing = initApp_fresh\<lparr> appStore_GetApplication := (\<lambda>project name. Inr api_app) \<rparr>"

text \<open>The same, with a store that cannot be reached.\<close>

definition initApp_store_down :: initAppOpts where
  "initApp_store_down =
     initApp_fresh\<lparr> appStore_GetApplication := (\<lambda>project name. Inl (errors_New ''ssm: throttled'')) \<rparr>"

text \<open>
  Application deploy of \<open>api\<close> to \<open>test\<close> with the tag \<open>v1\<close>, where every collaborator
  succeeds. The workspace lists the one application and the project the one
  environment.
\<close>

definition deploy_ok :: appDeployOpts where
  "deploy_ok =
     \<lparr> projectName = ''demo'',
       prompt_SelectOne = (\<lambda>message help options. Inl (errors_New ''no terminal'')),
       prompt_Get = (\<lambda>message help. Inl (errors_New ''no terminal'')),
       AppName = ''api'',
       EnvName = ''test'',
       ImageTag = ''v1'',
       projectService_GetEnvironment = (\<lambda>project name. Inr test_env),
       projectService_ListEnvironments = (\<lambda>project. Inr [test_env]),
       workspaceService_AppNames = Inr [''api''],
       workspaceService_ReadAppManifest = (\<lambda>name. Inr ''image: {build: api/Dockerfile}''),
       manifest_UnmarshalApp = (\<lambda>bytes. Inr ''api/Dockerfile''),
       sessProvider_DefaultWithRegion = (\<lambda>region. Inr (Session (''tools/'' @ region))),
       sessProvider_FromRole = (\<lambda>role region. Inr (Session (''env-manager/'' @ region))),
       sessProvider_Default = Inr (Session ''tools''),
       ecr_GetRepository = (\<lambda>sess name. Inr (''ecr.example.com/'' @ name)),
       ecr_GetECRAuth = (\<lambda>sess. Inr \<lparr> Username = ''AWS'', Password = ''token'' \<rparr>),
       dockerService_Build = (\<lambda>uri tag path. None),
       dockerService_Push = (\<lambda>uri tag. None),
       packageAppOpts_Execute = (\<lambda>app env tag sess. Inr (''Resources: {Service: '' @ app @ ''}'')),
       uuid_NewRandom = Inr ''9b2f0c4e-7d1a-4f5e-8c3b-6a1d2e3f4a5b'',
       stack_NameForApp = (\<lambda>project env app. project @ ''-'' @ env @ ''-'' @ app),
       stack_ProjectTagKey = ''ecs-project'',
       stack_EnvTagKey = ''ecs-environment'',
       stack_AppTagKey = ''ecs-application'',
       cf_DeployApp = (\<lambda>sess template stackName changeSetName role tags. None),
       describe_NewWebAppDescriber = (\<lambda>project app. Inr (WebAppDescriber project app)),
       identifier_URI = (\<lambda>describer env. Inr ''http://demo-test.example.com/api''),
       getVersionTag = Inr ''v1'',
       ecrService = Session '''',
       appDeployCfClient = Session '''',
       appPackageCfClient = Session '''',
       targetEnvironment = test_env \<rparr>"

text \<open>The same deploy, where rendering the template fails.\<close>

definition deploy_render_fails :: appDeployOpts where
  "deploy_render_fails =
     deploy_ok\<lparr> packageAppOpts_Execute := (\<lambda>app env tag sess. Inl (errors_New ''manifest not found'')) \<rparr>"

text \<open>The same deploy, where the push of the image fails.\<close>

definition deploy_push_fails :: appDeployOpts where
  "deploy_push_fails =
     deploy_ok\<lparr> dockerService_Push := (\<lambda>uri tag. Some (errors_New ''denied: access forbidden'')) \<rparr>"

text \<open>A retry of the deploy: the same stack, another random identifier.\<close>

definition deploy_retry :: appDeployOpts where
  "deploy_retry = deploy_ok\<lparr> uuid_NewRandom := Inr ''0e8a6f1c-2b3d-4c5e-9f7a-1b2c3d4e5f6a'' \<rparr>"




text \<open>
  Environment init of \<open>test\<close> from a profile in account \<open>222222222222\<close>, for a project
  that requires DNS delegation; every collaborator succeeds and the stream delivers two
  batches of events before it closes.
\<close>

definition vpc_event :: ResourceEvent where
  "vpc_event = \<lparr> LogicalName = ''VPC'', Type = ''AWS::EC2::VPC'', Status = ''CREATE_COMPLETE'' \<rparr>"

definition route_event :: ResourceEvent where
  "route_event = \<lparr> LogicalName = ''PublicRouteTable'', Type = ''AWS::EC2::RouteTable'',
                    Status = ''CREATE_COMPLETE'' \<rparr>"

definition initEnv_ok :: initEnvOpts where
  "initEnv_ok =
     \<lparr> projectName = ''demo'',
       prompt_SelectOne = (\<lambda>message help options. Inl (errors_New ''no terminal'')),
       prompt_Get = (\<lambda>message help. Inl (errors_New ''no terminal'')),
       initEnv_EnvName = ''test'',
       EnvProfile = ''test-admin'',
       IsProduction = False,
       projectGetter_GetProject = (\<lambda>name. Inr demo_project),
       envCreator_CreateEnvironment = (\<lambda>env. None),
       envDeployer_DeployEnvironment = (\<lambda>input. None),
       envDeployer_StreamEnvironmentCreation =
         (\<lambda>input. Closed [[vpc_event], [vpc_event, vpc_event, route_event]]
                     \<lparr> resp_Env = test_env, resp_Err = None \<rparr>),
       projDeployer_DelegateDNSPermissions = (\<lambda>project account. None),
       projDeployer_AddEnvToProject = (\<lambda>project env. None),
       identity_Get = Inr \<lparr> Account = ''111111111111'', RootUserARN = ''arn:aws:iam::111111111111:root'' \<rparr>,
       envIdentity_Get = Inr \<lparr> Account = ''222222222222'', RootUserARN = ''arn:aws:iam::222222222222:root'' \<rparr> \<rparr>"

text \<open>The same, where the stack of the environment exists already and the stream would never close.\<close>

definition initEnv_stack_exists :: initEnvOpts where
  "initEnv_stack_exists =
     initEnv_ok\<lparr> envDeployer_DeployEnvironment := (\<lambda>input. Some (ErrStackAlreadyExists ''demo-test'')),
                 envDeployer_StreamEnvironmentCreation := (\<lambda>input. Waits []) \<rparr>"

text \<open>The same, where the change is rejected.\<close>

definition initEnv_apply_rejected :: initEnvOpts where
  "initEnv_apply_rejected =
     initEnv_ok\<lparr> envDeployer_DeployEnvironment := (\<lambda>input. Some (errors_New ''AccessDenied'')) \<rparr>"

text \<open>The same, where the project is not in the store.\<close>

definition initEnv_no_project :: initEnvOpts where
  "initEnv_no_project =
     initEnv_ok\<lparr> projectGetter_GetProject := (\<lambda>name. Inl (errors_New ''project demo not found'')) \<rparr>"

text \<open>The same, in the account of the project.\<close>

definition initEnv_same_account :: initEnvOpts where
  "initEnv_same_account =
     initEnv_ok\<lparr> envIdentity_Get :=
                   Inr \<lparr> Account = ''111111111111'', RootUserARN = ''arn:aws:iam::111111111111:root'' \<rparr> \<rparr>"

text \<open>The same, for a project that requires no DNS delegation.\<close>

definition initEnv_no_delegation :: initEnvOpts where
  "initEnv_no_delegation =
     initEnv_ok\<lparr> projectGetter_GetProject := (\<lambda>name. Inr (demo_project\<lparr> RequiresDNSDelegation := False \<rparr>)) \<rparr>"

text \<open>The same, where linking the environment to the project fails.\<close>

definition initEnv_link_fails :: initEnvOpts where
  "initEnv_link_fails =
     initEnv_ok\<lparr> projDeployer_AddEnvToProject := (\<lambda>project env. Some (errors_New ''stack set: throttled'')) \<rparr>"

text \<open>The same, where storing the environment fails.\<close>

definition initEnv_store_fails :: initEnvOpts where
  "initEnv_store_fails =
     initEnv_ok\<lparr> envCreator_CreateEnvironment := (\<lambda>env. Some (errors_New ''ssm: throttled'')) \<rparr>"

section \<open>Kinds of calls\<close>

text \<open>The calls of application init that write: the manifest file, the stack set, the store.\<close>

fun is_initApp_write :: "init_call \<Rightarrow> bool" where
  "is_initApp_write (Call_WriteAppManifest m n) = True"
| "is_initApp_write (Call_AddAppToProject p n) = True"
| "is_initApp_write (Call_CreateApplication a) = True"
| "is_initApp_write c = False"

text \<open>The calls of environment init, by what they do.\<close>

fun is_streaming :: "env_call \<Rightarrow> bool" where
  "is_streaming (Call_StreamEnvironmentCreation i) = True"
| "is_streaming (Call_prog_Events rows) = True"
| "is_streaming c = False"

fun is_registry_write :: "env_call \<Rightarrow> bool" where
  "is_registry_write (Call_AddEnvToProject p e) = True"
| "is_registry_write (Call_CreateEnvironment e) = True"
| "is_registry_write c = False"

fun is_DelegateDNSPermissions :: "env_call \<Rightarrow> bool" where
  "is_DelegateDNSPermissions (Call_DelegateDNSPermissions p a) = True"
| "is_DelegateDNSPermissions c = False"

fun is_DeployEnvironment :: "env_call \<Rightarrow> bool" where
  "is_DeployEnvironment (Call_DeployEnvironment i) = True"
| "is_DeployEnvironment c = False"

fun is_CreateEnvironment :: "env_call \<Rightarrow> bool" where
  "is_CreateEnvironment (Call_CreateEnvironment e) = True"
| "is_CreateEnvironment c = False"

fun is_backend_mutation :: "env_call \<Rightarrow> bool" where
  "is_backend_mutation (Call_DelegateDNSPermissions p a) = True"
| "is_backend_mutation (Call_DeployEnvironment i) = True"
| "is_backend_mutation (Call_StreamEnvironmentCreation i) = True"
| "is_backend_mutation (Call_AddEnvToProject p e) = True"
| "is_backend_mutation (Call_CreateEnvironment e) = True"
| "is_backend_mutation c = False"

fun is_dns_delegation :: "env_call \<Rightarrow> bool" where
  "is_dns_delegation Call_envIdentity_Get = True"
| "is_dns_delegation (Call_DelegateDNSPermissions p a) = True"
| "is_dns_delegation c = False"

text \<open>
  \<open>first_P_before_Q P Q calls\<close>: no call of kind \<open>Q\<close> is made before the first call of
  kind \<open>P\<close> (and none at all when there is no call of kind \<open>P\<close>).
\<close>

fun first_P_before_Q :: "('a \<Rightarrow> bool) \<Rightarrow> ('a \<Rightarrow> bool) \<Rightarrow> 'a list \<Rightarrow> bool" where
  "first_P_before_Q P Q [] = True"
| "first_P_before_Q P Q (x # xs) = (if P x then True else \<not> Q x \<and> first_P_before_Q P Q xs)"



text \<open>
  The calls of application deploy that follow the push of the image: rendering the
  template, drawing the random identifier, applying the stack, resolving the endpoint.
\<close>

fun is_after_push :: "deploy_call \<Rightarrow> bool" where
  "is_after_push (Call_packageAppOpts_Execute app env tag sess) = True"
| "is_after_push Call_uuid_NewRandom = True"
| "is_after_push (Call_spinner_Start m) = True"
| "is_after_push (Call_spinner_Stop m) = True"
| "is_after_push (Call_DeployApp sess template stackName changeSetName role tags) = True"
| "is_after_push (Call_NewWebAppDescriber project app) = True"
| "is_after_push (Call_URI d env) = True"
| "is_after_push c = False"

text \<open>The input of \<open>DeployEnvironment\<close> in the sample runs of environment init.\<close>

definition test_input :: CreateEnvironmentInput where
  "test_input = \<lparr> in_Name = ''test'', in_Project = ''demo'', in_Prod = False,
                   in_PublicLoadBalancer = True,
                   in_ToolsAccountPrincipalARN = ''arn:aws:iam::111111111111:root'',
                   in_ProjectDNSName = ''example.com'' \<rparr>"

text \<open>The tags of the application stack in the sample deploys.\<close>

definition demo_tags :: "string \<rightharpoonup> string" where
  "demo_tags = [''ecs-project'' \<mapsto> ''demo'', ''ecs-environment'' \<mapsto> ''test'',
                ''ecs-application'' \<mapsto> ''api'']"

section \<open>Environment init: properties\<close>

lemmas initEnv_defs = initEnv_Execute_def delegateDNSFromProject_def errors_As_ErrStackAlreadyExists_def
  Let_def ProjectName_def

lemmas env_splits = sum.split option.split prod.split stream.split

lemmas initEnv_samples = initEnv_ok_def initEnv_stack_exists_def initEnv_apply_rejected_def
  initEnv_no_project_def initEnv_same_account_def initEnv_no_delegation_def initEnv_link_fails_def
  initEnv_store_fails_def demo_project_def test_input_def

text \<open>
  C1. When \<open>DeployEnvironment\<close> is reached and answers an error that \<open>errors.As\<close> finds
  to be the stack-already-exists error, \<open>Execute\<close> returns nil and makes no streaming
  call and no registry write (neither \<open>AddEnvToProject\<close> nor \<open>CreateEnvironment\<close>); when it
  answers any other error, \<open>Execute\<close> returns that very error.
\<close>

theorem initEnv_Execute_stack_already_exists:
  assumes "Call_DeployEnvironment input \<in> set (snd (initEnv_Execute opts))"
      and "envDeployer_DeployEnvironment opts input = Some e"
  shows "(errors_As_ErrStackAlreadyExists (Some e) \<longrightarrow>
            fst (initEnv_Execute opts) = Returns None
            \<and> \<not> list_ex is_streaming (snd (initEnv_Execute opts))
            \<and> \<not> list_ex is_registry_write (snd (initEnv_Execute opts)))
       \<and> (\<not> errors_As_ErrStackAlreadyExists (Some e) \<longrightarrow>
            fst (initEnv_Execute opts) = Returns (Some e))"
proof -
  have "Call_DeployEnvironment input \<in> set (snd (initEnv_Execute opts)) \<longrightarrow>
        envDeployer_DeployEnvironment opts input = Some e \<longrightarrow> ?thesis"
    by (auto simp: initEnv_defs image_iff list_ex_iff split: env_splits)
  with assms show ?thesis by blast
qed

theorem initEnv_Execute_stack_already_exists_witness:
  "Call_DeployEnvironment test_input \<in> set (snd (initEnv_Execute initEnv_stack_exists))
   \<and> envDeployer_DeployEnvironment initEnv_stack_exists test_input = Some (ErrStackAlreadyExists ''demo-test'')
   \<and> errors_As_ErrStackAlreadyExists (Some (ErrStackAlreadyExists ''demo-test''))
   \<and> envDeployer_StreamEnvironmentCreation initEnv_stack_exists test_input = Waits []
   \<and> initEnv_Execute initEnv_stack_exists =
       (Returns None,
        [Call_GetProject ''demo'', Call_identity_Get, Call_envIdentity_Get,
         Call_prog_Start fmtDNSDelegationStart,
         Call_DelegateDNSPermissions demo_project ''222222222222'',
         Call_prog_Start fmtDeployEnvStart, Call_DeployEnvironment test_input, Call_prog_Stop ''''])
   \<and> Call_DeployEnvironment test_input \<in> set (snd (initEnv_Execute initEnv_apply_rejected))
   \<and> envDeployer_DeployEnvironment initEnv_apply_rejected test_input = Some (errors_New ''AccessDenied'')
   \<and> \<not> errors_As_ErrStackAlreadyExists (Some (errors_New ''AccessDenied''))
   \<and> fst (initEnv_Execute initEnv_apply_rejected) = Returns (Some (errors_New ''AccessDenied''))"
  using initEnv_Execute_stack_already_exists
          [of test_input initEnv_stack_exists "ErrStackAlreadyExists ''demo-test''"]
        initEnv_Execute_stack_already_exists
          [of test_input initEnv_apply_rejected "errors_New ''AccessDenied''"]
  by (simp add: initEnv_defs initEnv_samples)

text \<open>
  C7. When the project cannot be fetched, \<open>Execute\<close> returns the error of the store as
  it is, and \<open>GetProject\<close> is the only call made: no DNS delegation, no change applied, no
  stream opened, nothing written to the registry.
\<close>

theorem initEnv_Execute_project_absent:
  assumes "projectGetter_GetProject opts (ProjectName opts) = Inl e"
  shows "initEnv_Execute opts = (Returns (Some e), [Call_GetProject (ProjectName opts)])
         \<and> \<not> list_ex is_backend_mutation (snd (initEnv_Execute opts))"
  using assms by (simp add: initEnv_Execute_def)

theorem initEnv_Execute_project_absent_witness:
  "projectGetter_GetProject initEnv_no_project (ProjectName initEnv_no_project)
     = Inl (errors_New ''project demo not found'')
   \<and> initEnv_Execute initEnv_no_project =
       (Returns (Some (errors_New ''project demo not found'')), [Call_GetProject ''demo''])
   \<and> \<not> list_ex is_backend_mutation (snd (initEnv_Execute initEnv_no_project))"
  using initEnv_Execute_project_absent [of initEnv_no_project "errors_New ''project demo not found''"]
  by (simp add: initEnv_defs initEnv_samples)

text \<open>
  C6. When \<open>AddEnvToProject\<close> is reached and fails, \<open>Execute\<close> returns the error wrapped as
  \<open>deploy env E to project P\<close> and \<open>CreateEnvironment\<close> is not called; when
  \<open>CreateEnvironment\<close> is reached and fails, \<open>Execute\<close> returns the error wrapped as
  \<open>store environment\<close>. Either call is reached only after \<open>DeployEnvironment\<close> has
  succeeded, and in both cases the run ends in an error.
\<close>

theorem initEnv_Execute_partial_failure:
  "(Call_AddEnvToProject project env \<in> set (snd (initEnv_Execute opts))
     \<and> projDeployer_AddEnvToProject opts project env = Some e \<longrightarrow>
      fst (initEnv_Execute opts) =
        Returns (Some (Errorf (''deploy env '' @ env_Name env @ '' to project '' @ proj_Name project) e))
      \<and> \<not> list_ex is_CreateEnvironment (snd (initEnv_Execute opts))
      \<and> (\<exists>input. Call_DeployEnvironment input \<in> set (snd (initEnv_Execute opts))
                  \<and> envDeployer_DeployEnvironment opts input = None))
   \<and> (Call_CreateEnvironment env \<in> set (snd (initEnv_Execute opts))
        \<and> envCreator_CreateEnvironment opts env = Some e \<longrightarrow>
      fst (initEnv_Execute opts) = Returns (Some (Errorf ''store environment'' e))
      \<and> (\<exists>input. Call_DeployEnvironment input \<in> set (snd (initEnv_Execute opts))
                  \<and> envDeployer_DeployEnvironment opts input = None))"
  by (auto simp: initEnv_defs image_iff list_ex_iff split: env_splits)

theorem initEnv_Execute_partial_failure_witness:
  "Call_AddEnvToProject demo_project test_env \<in> set (snd (initEnv_Execute initEnv_link_fails))
   \<and> projDeployer_AddEnvToProject initEnv_link_fails demo_project test_env
       = Some (errors_New ''stack set: throttled'')
   \<and> fst (initEnv_Execute initEnv_link_fails) =
       Returns (Some (Errorf ''deploy env test to project demo'' (errors_New ''stack set: throttled'')))
   \<and> \<not> list_ex is_CreateEnvironment (snd (initEnv_Execute initEnv_link_fails))
   \<and> Call_CreateEnvironment test_env \<in> set (snd (initEnv_Execute initEnv_store_fails))
   \<and> envCreator_CreateEnvironment initEnv_store_fails test_env = Some (errors_New ''ssm: throttled'')
   \<and> fst (initEnv_Execute initEnv_store_fails) =
       Returns (Some (Errorf ''store environment'' (errors_New ''ssm: throttled'')))"
  using initEnv_Execute_partial_failure
          [of demo_project test_env initEnv_link_fails "errors_New ''stack set: throttled''"]
        initEnv_Execute_partial_failure
          [of demo_project test_env initEnv_store_fails "errors_New ''ssm: throttled''"]
  by (simp add: initEnv_defs initEnv_samples test_env_def)

lemma filter_DelegateDNSPermissions_prog_Events:
  "filter is_DelegateDNSPermissions (map (\<lambda>b. Call_prog_Events (f b)) bs) = []"
  by (induction bs) simp_all

text \<open>
  C5. With the project fetched: when it does not require DNS delegation, the run
  neither resolves the environment account nor calls \<open>DelegateDNSPermissions\<close>; when the
  environment account is the account of the project, \<open>delegateDNSFromProject\<close> returns
  nil after resolving the account and \<open>Execute\<close> never calls \<open>DelegateDNSPermissions\<close>; when
  delegation is required, both identities resolve and the accounts differ,
  \<open>DelegateDNSPermissions\<close> is called exactly once, for that project and account, no
  \<open>DeployEnvironment\<close> call precedes it, and \<open>DeployEnvironment\<close> is called once the
  delegation has succeeded.
\<close>

theorem initEnv_Execute_dns_delegation:
  assumes "projectGetter_GetProject opts (ProjectName opts) = Inr project"
  shows "(\<not> RequiresDNSDelegation project \<longrightarrow>
            \<not> list_ex is_dns_delegation (snd (initEnv_Execute opts)))
       \<and> (\<forall>envAccount. envIdentity_Get opts = Inr envAccount
              \<and> Account envAccount = proj_AccountID project \<longrightarrow>
            delegateDNSFromProject opts project = (None, [Call_envIdentity_Get])
            \<and> \<not> list_ex is_DelegateDNSPermissions (snd (initEnv_Execute opts)))
       \<and> (\<forall>envAccount caller. RequiresDNSDelegation project
              \<and> identity_Get opts = Inr caller
              \<and> envIdentity_Get opts = Inr envAccount
              \<and> Account envAccount \<noteq> proj_AccountID project \<longrightarrow>
            filter is_DelegateDNSPermissions (snd (initEnv_Execute opts))
              = [Call_DelegateDNSPermissions project (Account envAccount)]
            \<and> first_P_before_Q is_DelegateDNSPermissions is_DeployEnvironment (snd (initEnv_Execute opts))
            \<and> (projDeployer_DelegateDNSPermissions opts project (Account envAccount) = None \<longrightarrow>
                 list_ex is_DeployEnvironment (snd (initEnv_Execute opts))))"
proof -
  have "projectGetter_GetProject opts (ProjectName opts) = Inr project \<longrightarrow> ?thesis"
    by (auto simp: initEnv_defs image_iff list_ex_iff filter_DelegateDNSPermissions_prog_Events
             split: env_splits)
  with assms show ?thesis by blast
qed

theorem initEnv_Execute_dns_delegation_witness:
  "projectGetter_GetProject initEnv_no_delegation (ProjectName initEnv_no_delegation)
     = Inr (demo_project\<lparr> RequiresDNSDelegation := False \<rparr>)
   \<and> \<not> list_ex is_dns_delegation (snd (initEnv_Execute initEnv_no_delegation))
   \<and> list_ex is_DeployEnvironment (snd (initEnv_Execute initEnv_no_delegation))
   \<and> projectGetter_GetProject initEnv_same_account (ProjectName initEnv_same_account) = Inr demo_project
   \<and> envIdentity_Get initEnv_same_account
       = Inr \<lparr> Account = ''111111111111'', RootUserARN = ''arn:aws:iam::111111111111:root'' \<rparr>
   \<and> proj_AccountID demo_project = ''111111111111''
   \<and> delegateDNSFromProject initEnv_same_account demo_project = (None, [Call_envIdentity_Get])
   \<and> \<not> list_ex is_DelegateDNSPermissions (snd (initEnv_Execute initEnv_same_account))
   \<and> projectGetter_GetProject initEnv_ok (ProjectName initEnv_ok) = Inr demo_project
   \<and> RequiresDNSDelegation demo_project
   \<and> identity_Get initEnv_ok
       = Inr \<lparr> Account = ''111111111111'', RootUserARN = ''arn:aws:iam::111111111111:root'' \<rparr>
   \<and> envIdentity_Get initEnv_ok
       = Inr \<lparr> Account = ''222222222222'', RootUserARN = ''arn:aws:iam::222222222222:root'' \<rparr>
   \<and> ''222222222222'' \<noteq> proj_AccountID demo_project
   \<and> filter is_DelegateDNSPermissions (snd (initEnv_Execute initEnv_ok))
       = [Call_DelegateDNSPermissions demo_project ''222222222222'']
   \<and> first_P_before_Q is_DelegateDNSPermissions is_DeployEnvironment (snd (initEnv_Execute initEnv_ok))
   \<and> take 7 (snd (initEnv_Execute initEnv_ok)) =
       [Call_GetProject ''demo'', Call_identity_Get, Call_envIdentity_Get,
        Call_prog_Start fmtDNSDelegationStart,
        Call_DelegateDNSPermissions demo_project ''222222222222'',
        Call_prog_Start fmtDeployEnvStart, Call_DeployEnvironment test_input]
   \<and> fst (initEnv_Execute initEnv_ok) = Returns None"
  using initEnv_Execute_dns_delegation
          [of initEnv_no_delegation "demo_project\<lparr> RequiresDNSDelegation := False \<rparr>"]
        initEnv_Execute_dns_delegation [of initEnv_same_account demo_project]
        initEnv_Execute_dns_delegation [of initEnv_ok demo_project]
  by (simp add: initEnv_defs initEnv_samples)

section \<open>Application deploy: properties\<close>

lemmas appDeploy_defs = appDeploy_Execute_def targetEnv_def configureClients_def
  getAppDockerfilePath_def Let_def ProjectName_def

lemmas from_template_defs = appDeploy_Execute_from_template_def getAppDeployTemplate_def
  applyAppDeployTemplate_def Let_def ProjectName_def

lemmas deploy_splits = sum.split option.split prod.split

lemma TrimSuffix_sample: "strings_TrimSuffix ''api/Dockerfile'' ''/Dockerfile'' = ''api''"
  by (simp add: strings_TrimSuffix_def suffix_to_prefix)

lemmas deploy_samples = deploy_ok_def deploy_render_fails_def deploy_push_fails_def deploy_retry_def
  test_env_def TrimSuffix_sample

lemma from_template_only_after_push:
  "c \<in> set (snd (appDeploy_Execute_from_template opts)) \<longrightarrow> is_after_push c"
  by (auto simp: from_template_defs split: deploy_splits)

lemma from_template_DeployApp:
  "Call_DeployApp sess template stackName changeSetName role tags
     \<in> set (snd (appDeploy_Execute_from_template opts)) \<longrightarrow>
   stackName = stack_NameForApp opts (ProjectName opts) (env_Name (targetEnvironment opts)) (AppName opts)
   \<and> (\<exists>id'. uuid_NewRandom opts = Inr id' \<and> changeSetName = stackName @ ''-'' @ id')"
  by (auto simp: from_template_defs split: deploy_splits)

text \<open>
  Where \<open>Execute\<close> calls \<open>DeployApp\<close>, the stack name is the one derived from the project,
  the target environment and the application, and the change-set name is the stack
  name, a dash and the identifier drawn.
\<close>

lemma appDeploy_Execute_DeployApp:
  "Call_DeployApp sess template stackName changeSetName role tags
     \<in> set (snd (snd (appDeploy_Execute opts))) \<Longrightarrow>
   stackName = stack_NameForApp opts (ProjectName opts)
                 (env_Name (targetEnvironment (fst (snd (appDeploy_Execute opts))))) (AppName opts)
   \<and> (\<exists>id'. uuid_NewRandom opts = Inr id' \<and> changeSetName = stackName @ ''-'' @ id')"
proof -
  have "Call_DeployApp sess template stackName changeSetName role tags
          \<in> set (snd (snd (appDeploy_Execute opts))) \<longrightarrow> ?thesis"
    by (auto simp: appDeploy_defs case_prod_beta split: sum.split option.split
             dest!: from_template_DeployApp [rule_format])
  then show "Call_DeployApp sess template stackName changeSetName role tags
     \<in> set (snd (snd (appDeploy_Execute opts))) \<Longrightarrow> ?thesis" by blast
qed

text \<open>
  C3. Take two runs of \<open>Execute\<close> that both reach \<open>DeployApp\<close> with the same stack name,
  and the identifiers that \<open>uuid.NewRandom\<close> gave them (as \<open>%s\<close> prints them). Each
  change-set name is the stack name, a dash and the identifier of its run, the stack
  name is the one \<open>stack.NameForApp\<close> derives, and different identifiers give different
  change-set names.
\<close>

theorem appDeploy_Execute_changeSetName:
  assumes "Call_DeployApp sess1 template1 stackName changeSetName1 role1 tags1
             \<in> set (snd (snd (appDeploy_Execute opts1)))"
      and "Call_DeployApp sess2 template2 stackName changeSetName2 role2 tags2
             \<in> set (snd (snd (appDeploy_Execute opts2)))"
      and "uuid_NewRandom opts1 = Inr id1"
      and "uuid_NewRandom opts2 = Inr id2"
  shows "changeSetName1 = stackName @ ''-'' @ id1
       \<and> changeSetName2 = stackName @ ''-'' @ id2
       \<and> stackName = stack_NameForApp opts1 (ProjectName opts1)
                        (env_Name (targetEnvironment (fst (snd (appDeploy_Execute opts1))))) (AppName opts1)
       \<and> (id1 \<noteq> id2 \<longrightarrow> changeSetName1 \<noteq> changeSetName2)"
  using appDeploy_Execute_DeployApp [OF assms(1)] appDeploy_Execute_DeployApp [OF assms(2)] assms(3,4)
  by auto

theorem appDeploy_Execute_changeSetName_witness:
  "Call_DeployApp (Session ''env-manager/us-west-2'') ''Resources: {Service: api}'' ''demo-test-api''
       ''demo-test-api-9b2f0c4e-7d1a-4f5e-8c3b-6a1d2e3f4a5b'' (ExecutionRoleARN test_env) demo_tags
     \<in> set (snd (snd (appDeploy_Execute deploy_ok)))
   \<and> Call_DeployApp (Session ''env-manager/us-west-2'') ''Resources: {Service: api}'' ''demo-test-api''
       ''demo-test-api-0e8a6f1c-2b3d-4c5e-9f7a-1b2c3d4e5f6a'' (ExecutionRoleARN test_env) demo_tags
     \<in> set (snd (snd (appDeploy_Execute deploy_retry)))
   \<and> uuid_NewRandom deploy_ok = Inr ''9b2f0c4e-7d1a-4f5e-8c3b-6a1d2e3f4a5b''
   \<and> uuid_NewRandom deploy_retry = Inr ''0e8a6f1c-2b3d-4c5e-9f7a-1b2c3d4e5f6a''
   \<and> ''demo-test-api'' = stack_NameForApp deploy_ok (ProjectName deploy_ok)
         (env_Name (targetEnvironment (fst (snd (appDeploy_Execute deploy_ok))))) (AppName deploy_ok)
   \<and> ''demo-test-api-9b2f0c4e-7d1a-4f5e-8c3b-6a1d2e3f4a5b''
       \<noteq> ''demo-test-api-0e8a6f1c-2b3d-4c5e-9f7a-1b2c3d4e5f6a''"
  using appDeploy_Execute_changeSetName
          [of "Session ''env-manager/us-west-2''" "''Resources: {Service: api}''" "''demo-test-api''"
              "''demo-test-api-9b2f0c4e-7d1a-4f5e-8c3b-6a1d2e3f4a5b''" "ExecutionRoleARN test_env"
              demo_tags deploy_ok
              "Session ''env-manager/us-west-2''" "''Resources: {Service: api}''"
              "''demo-test-api-0e8a6f1c-2b3d-4c5e-9f7a-1b2c3d4e5f6a''" "ExecutionRoleARN test_env"
              demo_tags deploy_retry
              "''9b2f0c4e-7d1a-4f5e-8c3b-6a1d2e3f4a5b''" "''0e8a6f1c-2b3d-4c5e-9f7a-1b2c3d4e5f6a''"]
  by (simp add: appDeploy_defs from_template_defs deploy_samples demo_tags_def)

text \<open>
  C4. When \<open>Push\<close> is reached and fails, \<open>Execute\<close> returns the error of \<open>Push\<close> as it is,
  and the run holds no call that follows the push: the template is not rendered, no
  random identifier is drawn (so no change-set name is made), \<open>DeployApp\<close> is not called.
\<close>

theorem appDeploy_Execute_push_fails:
  assumes "Call_Push uri tag \<in> set (snd (snd (appDeploy_Execute opts)))"
      and "dockerService_Push opts uri tag = Some e"
  shows "fst (appDeploy_Execute opts) = Some e
         \<and> \<not> list_ex is_after_push (snd (snd (appDeploy_Execute opts)))"
proof -
  have "Call_Push uri tag \<in> set (snd (snd (appDeploy_Execute opts))) \<longrightarrow>
        dockerService_Push opts uri tag = Some e \<longrightarrow> ?thesis"
    by (auto simp: appDeploy_defs case_prod_beta list_ex_iff split: sum.split option.split
             dest!: from_template_only_after_push [rule_format])
  with assms show ?thesis by blast
qed

theorem appDeploy_Execute_push_fails_witness:
  "Call_Push ''ecr.example.com/demo/api'' ''v1'' \<in> set (snd (snd (appDeploy_Execute deploy_push_fails)))
   \<and> dockerService_Push deploy_push_fails ''ecr.example.com/demo/api'' ''v1''
       = Some (errors_New ''denied: access forbidden'')
   \<and> fst (appDeploy_Execute deploy_push_fails) = Some (errors_New ''denied: access forbidden'')
   \<and> snd (snd (appDeploy_Execute deploy_push_fails)) =
       [Call_GetEnvironment ''demo'' ''test'',
        Call_DefaultWithRegion ''us-west-2'',
        Call_FromRole (ManagerRoleARN test_env) ''us-west-2'',
        Call_Default,
        Call_GetRepository (Session ''tools/us-west-2'') ''demo/api'',
        Call_ReadAppManifest ''api'',
        Call_UnmarshalApp ''image: {build: api/Dockerfile}'',
        Call_Build ''ecr.example.com/demo/api'' ''v1'' ''api'',
        Call_GetECRAuth (Session ''tools/us-west-2''),
        Call_Login ''ecr.example.com/demo/api'' ''AWS'' ''token'',
        Call_Push ''ecr.example.com/demo/api'' ''v1'']
   \<and> \<not> list_ex is_after_push (snd (snd (appDeploy_Execute deploy_push_fails)))"
  using appDeploy_Execute_push_fails
          [of "''ecr.example.com/demo/api''" "''v1''" deploy_push_fails
              "errors_New ''denied: access forbidden''"]
  by (simp add: appDeploy_defs from_template_defs deploy_samples)

text \<open>
  C2, at the input where the claim fails. Every call before the rendering succeeds and
  the rendering of the template fails. \<open>Execute\<close> does not stop: it draws the random
  identifier, calls \<open>DeployApp\<close> with the empty template and the change-set name,
  resolves the endpoint, and returns nil.
\<close>

theorem appDeploy_Execute_render_failure_ignored:
  "getAppDeployTemplate (fst (snd (appDeploy_Execute deploy_render_fails)))
     = (Inl (Errorf ''package application'' (errors_New ''manifest not found'')),
        [Call_packageAppOpts_Execute ''api'' ''test'' ''v1'' (Session ''tools'')])
   \<and> fst (appDeploy_Execute deploy_render_fails) = None
   \<and> drop 11 (snd (snd (appDeploy_Execute deploy_render_fails))) =
       [Call_packageAppOpts_Execute ''api'' ''test'' ''v1'' (Session ''tools''),
        Call_uuid_NewRandom,
        Call_spinner_Start ''Deploying %s to %s.'',
        Call_DeployApp (Session ''env-manager/us-west-2'') '''' ''demo-test-api''
          ''demo-test-api-9b2f0c4e-7d1a-4f5e-8c3b-6a1d2e3f4a5b'' (ExecutionRoleARN test_env) demo_tags,
        Call_spinner_Stop '''',
        Call_NewWebAppDescriber ''demo'' ''api'',
        Call_URI (WebAppDescriber ''demo'' ''api'') ''test'']"
  by (simp add: appDeploy_defs from_template_defs deploy_samples demo_tags_def)

section \<open>Ask: properties\<close>







section \<open>Application init: properties\<close>

lemmas initApp_defs = initApp_Execute_def ensureNoExistingApp_def errors_As_ErrNoSuchApplication_def
  createManifest_def createAppInProject_def Let_def ProjectName_def

lemmas initApp_samples = initApp_fresh_def initApp_existing_def initApp_store_down_def

text \<open>
  C10. When the store returns the application, \<open>Execute\<close> returns the error
  \<open>application A already exists under project P\<close> after the one call \<open>GetApplication\<close>:
  no manifest is written, nothing is added to the project and no record is created.
  When the store answers an error that \<open>errors.As\<close> finds to be \<open>ErrNoSuchApplication\<close>,
  the check returns nil and \<open>Execute\<close> goes on to fetch the project. Any other error of
  the store is returned wrapped as \<open>couldn't check if application A exists in project P\<close>,
  again after that one call.
\<close>

theorem initApp_Execute_existing_app:
  "(\<forall>a. appStore_GetApplication opts (ProjectName opts) (initApp_AppName opts) = Inr a \<longrightarrow>
      initApp_Execute opts =
        (Some (errors_New (''application '' @ initApp_AppName opts @ '' already exists under project ''
                            @ ProjectName opts)),
         opts, [Call_GetApplication (ProjectName opts) (initApp_AppName opts)])
      \<and> \<not> list_ex is_initApp_write (snd (snd (initApp_Execute opts))))
   \<and> (\<forall>e. appStore_GetApplication opts (ProjectName opts) (initApp_AppName opts) = Inl e
          \<and> errors_As_ErrNoSuchApplication (Some e) \<longrightarrow>
      ensureNoExistingApp opts (ProjectName opts) (initApp_AppName opts)
        = (None, [Call_GetApplication (ProjectName opts) (initApp_AppName opts)])
      \<and> take 2 (snd (snd (initApp_Execute opts)))
        = [Call_GetApplication (ProjectName opts) (initApp_AppName opts),
           Call_initApp_GetProject (ProjectName opts)])
   \<and> (\<forall>e. appStore_GetApplication opts (ProjectName opts) (initApp_AppName opts) = Inl e
          \<and> \<not> errors_As_ErrNoSuchApplication (Some e) \<longrightarrow>
      initApp_Execute opts =
        (Some (Errorf (''couldn't check if application '' @ initApp_AppName opts @ '' exists in project ''
                        @ ProjectName opts) e),
         opts, [Call_GetApplication (ProjectName opts) (initApp_AppName opts)]))"
  by (auto simp: initApp_Execute_def ensureNoExistingApp_def errors_As_ErrNoSuchApplication_def Let_def
           split: sum.splits option.splits prod.splits)

theorem initApp_Execute_existing_app_witness:
  "appStore_GetApplication initApp_existing (ProjectName initApp_existing) (initApp_AppName initApp_existing)
     = Inr api_app
   \<and> initApp_Execute initApp_existing =
       (Some (errors_New ''application api already exists under project demo''), initApp_existing,
        [Call_GetApplication ''demo'' ''api''])
   \<and> appStore_GetApplication initApp_fresh (ProjectName initApp_fresh) (initApp_AppName initApp_fresh)
     = Inl (ErrNoSuchApplication ''demo'' ''api'')
   \<and> errors_As_ErrNoSuchApplication (Some (ErrNoSuchApplication ''demo'' ''api''))
   \<and> initApp_Execute initApp_fresh =
       (None, initApp_fresh\<lparr>proj := Some demo_project, manifestPath := ''ecs-project/api-app.yml''\<rparr>,
        [Call_GetApplication ''demo'' ''api'', Call_initApp_GetProject ''demo'',
         Call_WriteAppManifest
           (NewLoadBalancedFargateManifest
              \<lparr>mf_AppName = ''api'', mf_Dockerfile = ''api/Dockerfile'', mf_Path = ''api''\<rparr>) ''api'',
         Call_Getwd, Call_Rel ''/code'' ''/code/ecs-project/api-app.yml'',
         Call_initApp_progStart fmtAddAppToProjectStart,
         Call_AddAppToProject demo_project ''api'',
         Call_initApp_progStop fmtAddAppToProjectComplete,
         Call_CreateApplication api_app])
   \<and> appStore_GetApplication initApp_store_down (ProjectName initApp_store_down)
        (initApp_AppName initApp_store_down) = Inl (errors_New ''ssm: throttled'')
   \<and> \<not> errors_As_ErrNoSuchApplication (Some (errors_New ''ssm: throttled''))
   \<and> initApp_Execute initApp_store_down =
       (Some (Errorf ''couldn't check if application api exists in project demo''
                (errors_New ''ssm: throttled'')), initApp_store_down,
        [Call_GetApplication ''demo'' ''api''])"
  using initApp_Execute_existing_app [of initApp_existing]
        initApp_Execute_existing_app [of initApp_fresh]
        initApp_Execute_existing_app [of initApp_store_down]
  by (simp add: initApp_defs initApp_samples api_app_def)

section \<open>Progress rows: properties\<close>

lemma countMatched_stays: "wanted \<le> count \<Longrightarrow> countMatched matches wanted count resourceEvents = count"
  by (induction resourceEvents) simp_all

lemma countMatched_bounds:
  "count \<le> wanted \<Longrightarrow>
   count \<le> countMatched matches wanted count resourceEvents
   \<and> countMatched matches wanted count resourceEvents \<le> wanted"
proof (induction resourceEvents arbitrary: count)
  case Nil
  then show ?case by simp
next
  case (Cons resourceEvent resourceEvents)
  show ?case
  proof (cases "matches resourceEvent \<and> count < wanted")
    case True
    then have "count + 1 \<le> wanted" by simp
    from Cons.IH [OF this] True show ?thesis by simp
  next
    case False
    with Cons.IH [OF Cons.prems] show ?thesis by auto
  qed
qed

lemma countMatched_append:
  "countMatched matches wanted count (resourceEvents @ later)
     = countMatched matches wanted (countMatched matches wanted count resourceEvents) later"
  by (induction resourceEvents arbitrary: count) simp_all

lemma countMatched_done:
  "countMatched matches wanted count resourceEvents = wanted \<Longrightarrow>
   countMatched matches wanted count (resourceEvents @ later) = wanted"
  by (simp add: countMatched_append countMatched_stays)

lemma humanize_sample_counts:
  "map row_Count (humanizeEnvironmentEvents [vpc_event]) = [1, 0, 0, 0, 0, 0, 0]"
  "map row_Count (humanizeEnvironmentEvents ([vpc_event] @ [vpc_event, vpc_event, route_event]))
     = [1, 0, 0, 0, 1, 0, 0]"
  "map row_Complete (humanizeEnvironmentEvents ([vpc_event] @ [vpc_event, vpc_event, route_event]))
     = [True, False, False, False, False, False, False]"
  by code_simp+

text \<open>
  C8. The rows of \<open>humanizeEnvironmentEvents\<close> are the seven phases in their declared
  order, with the expected counts 1, 2, 2, 2, 4, 1 and 4 of \<open>resourceCounts\<close>. Whatever
  the events, the counter of each row lies between 0 and the expected count of its
  phase; and a counter that has reached the expected count keeps that value whatever
  events follow.
\<close>

theorem humanizeEnvironmentEvents_counter_capped:
  "map row_Text (humanizeEnvironmentEvents resourceEvents)
     = [textVPC, textInternetGateway, textPublicSubnets, textPrivateSubnets, textRouteTables,
        textECSCluster, textALB]
   \<and> map (\<lambda>row. resourceCounts (row_Text row)) (humanizeEnvironmentEvents resourceEvents)
     = [1, 2, 2, 2, 4, 1, 4]
   \<and> list_all (\<lambda>row. 0 \<le> row_Count row \<and> row_Count row \<le> resourceCounts (row_Text row))
        (humanizeEnvironmentEvents resourceEvents)
   \<and> list_all2 (\<lambda>row row'. row_Count row = resourceCounts (row_Text row) \<longrightarrow>
                   row_Count row' = resourceCounts (row_Text row))
        (humanizeEnvironmentEvents resourceEvents) (humanizeEnvironmentEvents (resourceEvents @ later))"
proof -
  have bounds: "0 \<le> countMatched (matcher phase) (resourceCounts phase) 0 resourceEvents
                \<and> countMatched (matcher phase) (resourceCounts phase) 0 resourceEvents \<le> resourceCounts phase"
    for phase :: Text
  proof -
    have "(0::int) \<le> resourceCounts phase" by (cases phase) simp_all
    then show ?thesis by (rule countMatched_bounds)
  qed
  show ?thesis
    using bounds [of textVPC] bounds [of textInternetGateway] bounds [of textPublicSubnets]
          bounds [of textPrivateSubnets] bounds [of textRouteTables] bounds [of textECSCluster]
          bounds [of textALB]
    by (simp add: humanizeEnvironmentEvents_def HumanizeResourceEvents_def envProgressOrder_def
                  countMatched_done Let_def)
qed

theorem humanizeEnvironmentEvents_counter_capped_witness:
  "map row_Count (humanizeEnvironmentEvents [vpc_event]) = [1, 0, 0, 0, 0, 0, 0]
   \<and> map (\<lambda>row. resourceCounts (row_Text row)) (humanizeEnvironmentEvents [vpc_event])
       = [1, 2, 2, 2, 4, 1, 4]
   \<and> map row_Count (humanizeEnvironmentEvents ([vpc_event] @ [vpc_event, vpc_event, route_event]))
       = [1, 0, 0, 0, 1, 0, 0]
   \<and> map row_Complete (humanizeEnvironmentEvents ([vpc_event] @ [vpc_event, vpc_event, route_event]))
       = [True, False, False, False, False, False, False]"
  using humanizeEnvironmentEvents_counter_capped [of "[vpc_event]" "[vpc_event, vpc_event, route_event]"]
        humanize_sample_counts
  by simp

end
